theory Spec2Isabelle
  imports Complex_Main
begin

section \<open>JavaScript values\<close>

text \<open>
  The adapter in \<^verbatim>\<open>src/index.ts\<close> stores primitive values on function objects and
  branches on their truthiness and on \<^verbatim>\<open>typeof\<close>. The model keeps the primitive values of
  the language. No arithmetic is done on numbers, so a finite number is a real; the
  two zeros are both \<open>Finite 0\<close>.
\<close>

datatype jsnum = NaN | PosInf | NegInf | Finite real

datatype jsval = Undefined | Null | Bool bool | Num jsnum | Str string | Sym nat

text \<open>ToBoolean, as used by \<^verbatim>\<open>if (v)\<close>, \<^verbatim>\<open>a || b\<close> and \<^verbatim>\<open>c ? x : y\<close>.\<close>

fun truthy :: "jsval \<Rightarrow> bool" where
  "truthy Undefined = False"
| "truthy Null = False"
| "truthy (Bool b) = b"
| "truthy (Num NaN) = False"
| "truthy (Num PosInf) = True"
| "truthy (Num NegInf) = True"
| "truthy (Num (Finite r)) = (r \<noteq> 0)"
| "truthy (Str s) = (s \<noteq> [])"
| "truthy (Sym n) = True"

definition js_or :: "jsval \<Rightarrow> jsval \<Rightarrow> jsval" where
  "js_or a b = (if truthy a then a else b)"

text \<open>\<^verbatim>\<open>typeof v === "number"\<close>\<close>

fun is_number :: "jsval \<Rightarrow> bool" where
  "is_number (Num n) = True"
| "is_number v = False"

text \<open>Exceptions: the adapter itself only ever raises the engine's TypeError.\<close>

datatype exn = TypeError | UserException nat

section \<open>Function objects and the behaviour table\<close>

text \<open>
  A function object has an identity, a declared parameter count (\<^verbatim>\<open>length\<close>) and
  string-keyed properties; \<open>fn_props\<close> is the result of a property read for every name
  other than \<^verbatim>\<open>length\<close>. A member of a table is a function object or a primitive value;
  objects that are not callable are outside the model.
\<close>

record func =
  fn_id :: nat
  fn_length :: nat
  fn_props :: "string \<Rightarrow> jsval option"

datatype member = Fn func | NonFn jsval

datatype pkey = KStr string | KSym nat

record slot =
  enumerable :: bool
  p_value :: member

text \<open>
  The prototype object of a suite class: its own properties in enumeration order, the
  properties it inherits (nearest first), and whether \<^verbatim>\<open>prototype instanceof Function\<close>
  holds (it does when the class extends \<^verbatim>\<open>Function\<close>, and not for an ordinary class).
  A function object is identified by \<open>fn_id\<close>: entries whose functions have the same
  \<open>fn_id\<close> hold the same object.
\<close>

record proto =
  p_own :: "(pkey \<times> slot) list"
  p_inherited :: "(pkey \<times> slot) list"
  p_instance_of_function :: bool

definition hasOwnProperty :: "proto \<Rightarrow> pkey \<Rightarrow> bool" where
  "hasOwnProperty p k = (map_of (p_own p) k \<noteq> None)"

text \<open>\<^verbatim>\<open>prototype[key]\<close>: own properties shadow inherited ones; a missing one reads undefined.\<close>

definition proto_get :: "proto \<Rightarrow> pkey \<Rightarrow> member" where
  "proto_get p k =
     (case map_of (p_own p) k of
        Some pr \<Rightarrow> p_value pr
      | None \<Rightarrow> (case map_of (p_inherited p) k of
                   Some pr \<Rightarrow> p_value pr
                 | None \<Rightarrow> NonFn Undefined))"

text \<open>
  A property store on the function object \<open>i\<close>. The object is mutated in place, so
  the store is seen under every key of the table that holds the object; members that
  are other functions, or no functions, are as before.
\<close>

definition store_on_member :: "nat \<Rightarrow> string \<Rightarrow> jsval \<Rightarrow> member \<Rightarrow> member" where
  "store_on_member i tagKey v m =
     (case m of
        Fn g \<Rightarrow> (if fn_id g = i then Fn (g\<lparr>fn_props := (fn_props g)(tagKey \<mapsto> v)\<rparr>) else Fn g)
      | NonFn w \<Rightarrow> NonFn w)"

fun store_on_slots ::
  "nat \<Rightarrow> string \<Rightarrow> jsval \<Rightarrow> (pkey \<times> slot) list \<Rightarrow> (pkey \<times> slot) list" where
  "store_on_slots i tagKey v [] = []"
| "store_on_slots i tagKey v ((k, pr) # rest) =
     (k, pr\<lparr>p_value := store_on_member i tagKey v (p_value pr)\<rparr>) # store_on_slots i tagKey v rest"

definition store_on_function :: "nat \<Rightarrow> string \<Rightarrow> jsval \<Rightarrow> proto \<Rightarrow> proto" where
  "store_on_function i tagKey v p =
     p\<lparr>p_own := store_on_slots i tagKey v (p_own p),
       p_inherited := store_on_slots i tagKey v (p_inherited p)\<rparr>"

text \<open>
  \<^verbatim>\<open>for (let key in prototype)\<close> visits the enumerable string keys: the own ones, then the
  inherited ones that no own property shadows.
\<close>

fun enumerable_keys :: "(pkey \<times> slot) list \<Rightarrow> string list" where
  "enumerable_keys [] = []"
| "enumerable_keys ((KStr k, pr) # rest) =
     (if enumerable pr then k # enumerable_keys rest else enumerable_keys rest)"
| "enumerable_keys ((KSym n, pr) # rest) = enumerable_keys rest"

definition for_in_keys :: "proto \<Rightarrow> string list" where
  "for_in_keys p =
     enumerable_keys (p_own p) @
     filter (\<lambda>k. \<not> hasOwnProperty p (KStr k)) (enumerable_keys (p_inherited p))"

section \<open>Marker registry\<close>

text \<open>
  \<^verbatim>\<open>let nodeSymbol = (key => "__mts_" + key);\<close> The keys are ordinary strings; the
  timeout key is spelled \<^verbatim>\<open>"timout"\<close> in the source.
\<close>

definition nodeSymbol :: "string \<Rightarrow> string" where
  "nodeSymbol key = ''__mts_'' @ key"

definition testNameSymbol :: string where "testNameSymbol = nodeSymbol ''test''"
definition slowSymbol :: string where "slowSymbol = nodeSymbol ''slow''"
definition timeoutSymbol :: string where "timeoutSymbol = nodeSymbol ''timout''"
definition onlySymbol :: string where "onlySymbol = nodeSymbol ''only''"
definition skipSymbol :: string where "skipSymbol = nodeSymbol ''skip''"

text \<open>
  \<^verbatim>\<open>method[tagKey]\<close>: a property a function object does not have reads undefined; reading
  a property of undefined or null throws; a primitive has none of the tag properties.
\<close>

definition read_tag :: "func \<Rightarrow> string \<Rightarrow> jsval" where
  "read_tag f tagKey = (case fn_props f tagKey of Some v \<Rightarrow> v | None \<Rightarrow> Undefined)"

fun member_tag :: "member \<Rightarrow> string \<Rightarrow> exn + jsval" where
  "member_tag (Fn f) tagKey = Inr (read_tag f tagKey)"
| "member_tag (NonFn Undefined) tagKey = Inl TypeError"
| "member_tag (NonFn Null) tagKey = Inl TypeError"
| "member_tag (NonFn v) tagKey = Inr Undefined"

text \<open>
  \<^verbatim>\<open>target[propertyKey][tagKey] = v\<close>: the store is made on the function object found
  under the key. The file is a module, hence strict code: storing a property on a
  primitive throws, as it does on undefined and null.
\<close>

definition store_tag :: "string \<Rightarrow> jsval \<Rightarrow> proto \<Rightarrow> pkey \<Rightarrow> exn + proto" where
  "store_tag tagKey v target propertyKey =
     (case proto_get target propertyKey of
        Fn f \<Rightarrow> Inr (store_on_function (fn_id f) tagKey v target)
      | NonFn w \<Rightarrow> Inl TypeError)"

fun key_value :: "pkey \<Rightarrow> jsval" where
  "key_value (KStr s) = Str s"
| "key_value (KSym n) = Sym n"

text \<open>
  \<^verbatim>\<open>test\<close>: the two overloads are the two constructors of the call. The inner closure
  \<^verbatim>\<open>result\<close> is \<open>test_result\<close>, with the captured \<^verbatim>\<open>decoratorName\<close> (the string itself, or
  false when the first argument is not a string) as its first argument.
\<close>

datatype test_call = TestByName string | TestDirect proto pkey

datatype marker = TestMarker jsval | SlowMarker jsval | TimeoutMarker jsval

datatype test_ret = TestReturnsMarker marker | TestApplied proto

definition test_result :: "jsval \<Rightarrow> proto \<Rightarrow> pkey \<Rightarrow> exn + proto" where
  "test_result decoratorName target propertyKey =
     store_tag testNameSymbol (js_or decoratorName (key_value propertyKey)) target propertyKey"

text \<open>
  With a string first argument that is falsy (the empty string), \<^verbatim>\<open>result(target, propertyKey)\<close>
  runs at once with the string as target and no property key: \<^verbatim>\<open>""[undefined]\<close> is
  undefined and the store on it throws.
\<close>

definition test :: "test_call \<Rightarrow> exn + test_ret" where
  "test c =
     (let decoratorName = (case c of TestByName s \<Rightarrow> Str s | TestDirect t k \<Rightarrow> Bool False) in
      if truthy decoratorName then Inr (TestReturnsMarker (TestMarker decoratorName))
      else (case c of
              TestByName s \<Rightarrow> Inl TypeError
            | TestDirect t k \<Rightarrow> map_sum id TestApplied (test_result decoratorName t k)))"

definition slow :: "jsval \<Rightarrow> marker" where
  "slow time = SlowMarker time"

definition timeout :: "jsval \<Rightarrow> marker" where
  "timeout time = TimeoutMarker time"

definition only :: "proto \<Rightarrow> pkey \<Rightarrow> exn + proto" where
  "only target propertyKey = store_tag onlySymbol (Bool True) target propertyKey"


text \<open>Applying a marker returned by \<open>test\<close>, \<open>slow\<close> or \<open>timeout\<close> to a target and key.\<close>

fun apply_marker :: "marker \<Rightarrow> proto \<Rightarrow> pkey \<Rightarrow> exn + proto" where
  "apply_marker (TestMarker decoratorName) target propertyKey =
     test_result decoratorName target propertyKey"
| "apply_marker (SlowMarker time) target propertyKey =
     store_tag slowSymbol time target propertyKey"
| "apply_marker (TimeoutMarker time) target propertyKey =
     store_tag timeoutSymbol time target propertyKey"

section \<open>Suite translator\<close>

text \<open>
  A suite class, as \<^verbatim>\<open>SuiteCtor\<close> declares it: its \<^verbatim>\<open>name\<close>, its static \<^verbatim>\<open>before\<close> and
  \<^verbatim>\<open>after\<close> (undefined when absent) and its prototype. The inner function \<^verbatim>\<open>result\<close>
  of \<^verbatim>\<open>suite\<close> can also receive a string as its target (see \<open>suite\<close> below).
\<close>

record suite_ctor =
  c_name :: jsval
  c_before :: member
  c_after :: member
  c_prototype :: proto

datatype suite_target = TgtCtor suite_ctor | TgtStr string

text \<open>The runner's entry points: \<^verbatim>\<open>itFunction\<close>, \<^verbatim>\<open>skipFunction\<close>, \<^verbatim>\<open>onlyFunction\<close>.\<close>

datatype entry = It | ItSkip | ItOnly

text \<open>\<^verbatim>\<open>beforeAll\<close>, \<^verbatim>\<open>afterAll\<close>, \<^verbatim>\<open>beforeEach\<close>, \<^verbatim>\<open>afterEach\<close>.\<close>

datatype hook_slot = BeforeAll | AfterAll | BeforeEach | AfterEach

text \<open>
  The closures the adapter hands to the runner, one constructor per arrow function of the
  source. The flag says whether the closure declares the parameter \<^verbatim>\<open>done\<close>.
  \<^item> \<open>StaticHook h d\<close>: \<^verbatim>\<open>(done) => target.before(done)\<close> or \<^verbatim>\<open>() => target.before()\<close>, and
    the same for \<^verbatim>\<open>target.after\<close>;
  \<^item> \<open>SetupDefault\<close>, \<open>SetupHook h d\<close>: the three forms of \<^verbatim>\<open>beforeEachFunction\<close>;
  \<^item> \<open>TeardownDefault\<close>, \<open>TeardownHook h d\<close>: the three forms of \<^verbatim>\<open>afterEachFunction\<close>;
  \<^item> \<open>CaseBody this method d\<close>: the two case bodies, which capture the \<^verbatim>\<open>this\<close> of the
    callback given to \<^verbatim>\<open>describeFunction\<close> (they are arrow functions) and \<^verbatim>\<open>method\<close>.

  The closures read \<^verbatim>\<open>target.before\<close>, \<^verbatim>\<open>prototype.after\<close> and the tags of \<^verbatim>\<open>method\<close> when
  they run. The class and its functions are taken not to change between registration
  and run, so a closure holds the member as it was when it was registered.
\<close>

datatype closure =
    StaticHook member bool
  | SetupDefault
  | SetupHook member bool
  | TeardownDefault
  | TeardownHook member bool
  | CaseBody nat member bool

fun closure_arity :: "closure \<Rightarrow> nat" where
  "closure_arity (StaticHook h d) = (if d then 1 else 0)"
| "closure_arity SetupDefault = 0"
| "closure_arity (SetupHook h d) = (if d then 1 else 0)"
| "closure_arity TeardownDefault = 0"
| "closure_arity (TeardownHook h d) = (if d then 1 else 0)"
| "closure_arity (CaseBody this method d) = (if d then 1 else 0)"

datatype registration = RegHook hook_slot closure | RegCase entry jsval closure

fun member_truthy :: "member \<Rightarrow> bool" where
  "member_truthy (Fn f) = True"
| "member_truthy (NonFn v) = truthy v"

text \<open>
  \<^verbatim>\<open>m.length\<close>, read only where \<open>m\<close> is known not to be undefined or null. \<open>None\<close> is
  undefined, which compares false with every number under \<^verbatim>\<open>>\<close> and \<^verbatim>\<open>==\<close>.
\<close>

fun member_length :: "member \<Rightarrow> nat option" where
  "member_length (Fn f) = Some (fn_length f)"
| "member_length (NonFn (Str s)) = Some (length s)"
| "member_length (NonFn v) = None"

definition length_gt0 :: "member \<Rightarrow> bool" where
  "length_gt0 m = (case member_length m of Some n \<Rightarrow> n > 0 | None \<Rightarrow> False)"

text \<open>\<^verbatim>\<open>if (target.before) { if (target.before.length > 0) beforeAll(...) else beforeAll(...) }\<close>\<close>

definition static_hook :: "hook_slot \<Rightarrow> member \<Rightarrow> registration list" where
  "static_hook slot h =
     (if member_truthy h then
        (if length_gt0 h then [RegHook slot (StaticHook h True)]
         else [RegHook slot (StaticHook h False)])
      else [])"

definition beforeEachFunction :: "proto \<Rightarrow> closure" where
  "beforeEachFunction prototype =
     (let h = proto_get prototype (KStr ''before'') in
      if member_truthy h then (if length_gt0 h then SetupHook h True else SetupHook h False)
      else SetupDefault)"

definition afterEachFunction :: "proto \<Rightarrow> closure" where
  "afterEachFunction prototype =
     (let h = proto_get prototype (KStr ''after'') in
      if member_truthy h then (if length_gt0 h then TeardownHook h True else TeardownHook h False)
      else TeardownDefault)"

text \<open>
  \<^verbatim>\<open>(shouldSkip && skipFunction) || (shouldOnly && onlyFunction) || itFunction\<close>; the three
  entry points are functions, hence truthy.
\<close>

definition testFunc :: "jsval \<Rightarrow> jsval \<Rightarrow> entry" where
  "testFunc shouldSkip shouldOnly =
     (if truthy shouldSkip then ItSkip else if truthy shouldOnly then ItOnly else It)"

text \<open>One round of the \<^verbatim>\<open>for\<close> loop: the registrations it makes, or the exception it throws.\<close>

definition loop_body :: "nat \<Rightarrow> proto \<Rightarrow> string \<Rightarrow> exn + registration list" where
  "loop_body this prototype key =
     (if \<not> hasOwnProperty prototype (KStr key) \<or> \<not> p_instance_of_function prototype then Inr []
      else
        let method = proto_get prototype (KStr key) in
        (case member_tag method testNameSymbol of
           Inl e \<Rightarrow> Inl e
         | Inr testName \<Rightarrow>
        (case member_tag method skipSymbol of
           Inl e \<Rightarrow> Inl e
         | Inr shouldSkip \<Rightarrow>
        (case member_tag method onlySymbol of
           Inl e \<Rightarrow> Inl e
         | Inr shouldOnly \<Rightarrow>
          (if truthy testName then
             (if member_length method = Some 0 then
                Inr [RegCase (testFunc shouldSkip shouldOnly) testName (CaseBody this method False)]
              else if member_length method = Some 1 then
                Inr [RegCase (testFunc shouldSkip shouldOnly) testName (CaseBody this method True)]
              else Inr [])
           else Inr [])))))"

text \<open>The loop: the registrations made, and the exception that ended it, if any.\<close>

fun loop :: "nat \<Rightarrow> proto \<Rightarrow> string list \<Rightarrow> registration list \<times> exn option" where
  "loop this prototype [] = ([], None)"
| "loop this prototype (key # keys) =
     (case loop_body this prototype key of
        Inl e \<Rightarrow> ([], Some e)
      | Inr regs \<Rightarrow> (let (rest, err) = loop this prototype keys in (regs @ rest, err)))"

text \<open>
  The callback given to \<^verbatim>\<open>describeFunction\<close>, run by the runner with some \<^verbatim>\<open>this\<close>. With a
  string as target, \<^verbatim>\<open>target.before\<close>, \<^verbatim>\<open>target.after\<close> and \<^verbatim>\<open>target.prototype\<close> are
  undefined, and \<^verbatim>\<open>prototype.before\<close> throws before anything is registered.
\<close>

fun describe_callback :: "nat \<Rightarrow> suite_target \<Rightarrow> registration list \<times> exn option" where
  "describe_callback this (TgtStr s) = ([], Some TypeError)"
| "describe_callback this (TgtCtor target) =
     (let prototype = c_prototype target;
          hooks = static_hook BeforeAll (c_before target) @ static_hook AfterAll (c_after target) @
                  [RegHook BeforeEach (beforeEachFunction prototype),
                   RegHook AfterEach (afterEachFunction prototype)];
          (cases, err) = loop this prototype (for_in_keys prototype)
      in (hooks @ cases, err))"

text \<open>
  \<^verbatim>\<open>suite\<close>: \<^verbatim>\<open>decoratorName = typeof target === "string" && target\<close> is the string itself
  or false, and \<^verbatim>\<open>return decoratorName ? result : result(target)\<close> decides by its
  truthiness. The call to \<^verbatim>\<open>describeFunction\<close> that \<^verbatim>\<open>result\<close> makes is recorded with the
  name and the target its callback closes over; the \<^verbatim>\<open>name\<close> property of a string is
  undefined.
\<close>

datatype suite_call = SuiteByName string | SuiteDirect suite_ctor

datatype describe_call = Describe jsval suite_target

datatype suite_ret = SuiteReturnsMarker jsval | SuiteApplied describe_call

fun target_name :: "suite_target \<Rightarrow> jsval" where
  "target_name (TgtCtor c) = c_name c"
| "target_name (TgtStr s) = Undefined"

definition suite_result :: "jsval \<Rightarrow> suite_target \<Rightarrow> describe_call" where
  "suite_result decoratorName target =
     Describe (js_or decoratorName (target_name target)) target"

definition suite :: "suite_call \<Rightarrow> suite_ret" where
  "suite c =
     (let decoratorName = (case c of SuiteByName s \<Rightarrow> Str s | SuiteDirect t \<Rightarrow> Bool False) in
      if truthy decoratorName then SuiteReturnsMarker decoratorName
      else SuiteApplied (suite_result decoratorName
             (case c of SuiteByName s \<Rightarrow> TgtStr s | SuiteDirect t \<Rightarrow> TgtCtor t)))"

section \<open>Running the registered closures\<close>

text \<open>
  What the runner passes to a closure, what a user function is called on, and how a call
  ends. User code is opaque: \<open>construct\<close> says whether the constructor throws at a given
  allocation, \<open>invoke\<close> how a call of a user function ends. The only state of the
  adapter is the variable \<^verbatim>\<open>instance\<close> of the suite callback (\<open>None\<close> is undefined).
\<close>

datatype argval = ArgUndefined | Callback nat

fun first_arg :: "argval list \<Rightarrow> argval" where
  "first_arg [] = ArgUndefined"
| "first_arg (a # as) = a"

datatype receiver = RecvUndefined | RecvInstance nat | RecvCtor

fun recv_of :: "nat option \<Rightarrow> receiver" where
  "recv_of None = RecvUndefined"
| "recv_of (Some n) = RecvInstance n"

datatype outcome = Returned "nat option" | Thrown exn

datatype event =
    EvNew
  | EvSetInstance "nat option"
  | EvCall func receiver "argval list"
  | EvTimeout nat jsval
  | EvSlow nat jsval

record env =
  construct :: "nat \<Rightarrow> exn option"
  invoke :: "func \<Rightarrow> receiver \<Rightarrow> argval list \<Rightarrow> outcome"

record adapter_state =
  st_instance :: "nat option"
  allocated :: nat

definition new_target :: "env \<Rightarrow> adapter_state \<Rightarrow> exn + adapter_state" where
  "new_target e s =
     (case construct e (allocated s) of
        Some x \<Rightarrow> Inl x
      | None \<Rightarrow> Inr (s\<lparr>st_instance := Some (allocated s), allocated := Suc (allocated s)\<rparr>))"

text \<open>Calling a member: a value that is not a function cannot be called.\<close>

fun call_member :: "env \<Rightarrow> member \<Rightarrow> receiver \<Rightarrow> argval list \<Rightarrow> event list \<times> outcome" where
  "call_member e (Fn f) r args = ([EvCall f r args], invoke e f r args)"
| "call_member e (NonFn v) r args = ([], Thrown TypeError)"

text \<open>
  \<^verbatim>\<open>applyTimes(this)\<close>: the setters \<^verbatim>\<open>timeout\<close> and \<^verbatim>\<open>slow\<close> belong to the runner; a call of
  one is recorded as an event and returns.
\<close>

definition applyTimes :: "nat \<Rightarrow> member \<Rightarrow> exn + event list" where
  "applyTimes target method =
     (case member_tag method timeoutSymbol of
        Inl x \<Rightarrow> Inl x
      | Inr timeoutValue \<Rightarrow>
     (case member_tag method slowSymbol of
        Inl x \<Rightarrow> Inl x
      | Inr slowValue \<Rightarrow>
          Inr ((if is_number timeoutValue then [EvTimeout target timeoutValue] else []) @
               (if is_number slowValue then [EvSlow target slowValue] else []))))"

definition done_args :: "bool \<Rightarrow> argval list \<Rightarrow> argval list" where
  "done_args d args = (if d then [first_arg args] else [])"

fun run_closure ::
  "env \<Rightarrow> closure \<Rightarrow> argval list \<Rightarrow> adapter_state \<Rightarrow> event list \<times> outcome \<times> adapter_state" where
  "run_closure e (StaticHook h d) args s =
     (let (evs, out) = call_member e h RecvCtor (done_args d args) in (evs, out, s))"
| "run_closure e SetupDefault args s =
     (case new_target e s of
        Inl x \<Rightarrow> ([EvNew], Thrown x, s)
      | Inr s' \<Rightarrow> ([EvNew, EvSetInstance (st_instance s')], Returned None, s'))"
| "run_closure e (SetupHook h d) args s =
     (case new_target e s of
        Inl x \<Rightarrow> ([EvNew], Thrown x, s)
      | Inr s' \<Rightarrow>
          (let (evs, out) = call_member e h (recv_of (st_instance s')) (done_args d args)
           in ([EvNew, EvSetInstance (st_instance s')] @ evs, out, s')))"
| "run_closure e TeardownDefault args s =
     ([EvSetInstance None], Returned None, s\<lparr>st_instance := None\<rparr>)"
| "run_closure e (TeardownHook h d) args s =
     (let instanceReference = st_instance s;
          (evs, out) = call_member e h (recv_of instanceReference) (done_args d args)
      in (EvSetInstance None # evs, out, s\<lparr>st_instance := None\<rparr>))"
| "run_closure e (CaseBody this method d) args s =
     (case applyTimes this method of
        Inl x \<Rightarrow> ([], Thrown x, s)
      | Inr cfg \<Rightarrow>
          (let (evs, out) = call_member e method (recv_of (st_instance s)) (done_args d args)
           in (cfg @ evs, out, s)))"


section \<open>Example suites\<close>

text \<open>
  The scenario of the specification: a class \<^verbatim>\<open>Calculator\<close> with one method
  \<^verbatim>\<open>addsNumbers\<close> of no parameters, marked \<^verbatim>\<open>@test("adds numbers")\<close>. Its prototype is an
  ordinary object, so \<^verbatim>\<open>prototype instanceof Function\<close> is false.
\<close>

definition plain_function :: "nat \<Rightarrow> nat \<Rightarrow> func" where
  "plain_function i n = \<lparr>fn_id = i, fn_length = n, fn_props = Map.empty\<rparr>"

definition addsNumbers :: func where
  "addsNumbers =
     \<lparr>fn_id = 1, fn_length = 0, fn_props = [''__mts_test'' \<mapsto> Str ''adds numbers'']\<rparr>"

definition calculator_prototype :: proto where
  "calculator_prototype =
     \<lparr>p_own = [(KStr ''constructor'', \<lparr>enumerable = False, p_value = Fn (plain_function 0 0)\<rparr>),
               (KStr ''addsNumbers'', \<lparr>enumerable = True, p_value = Fn addsNumbers\<rparr>)],
      p_inherited = [],
      p_instance_of_function = False\<rparr>"

definition Calculator :: suite_ctor where
  "Calculator =
     \<lparr>c_name = Str ''Calculator'', c_before = NonFn Undefined, c_after = NonFn Undefined,
      c_prototype = calculator_prototype\<rparr>"

text \<open>
  A suite class that extends \<^verbatim>\<open>Function\<close>, so that its prototype is an instance of
  \<^verbatim>\<open>Function\<close>. It has the four hooks and four methods: \<^verbatim>\<open>skippedOnly\<close> (marked test,
  skip and only), \<^verbatim>\<open>timed\<close> (marked test, timeout 500, slow 100, one parameter),
  \<^verbatim>\<open>helper\<close> (marked skip, only, timeout and slow but not test) and \<^verbatim>\<open>twoArgs\<close> (marked
  test and skip, two parameters).
\<close>

definition staticBefore :: func where "staticBefore = plain_function 10 0"
definition staticAfter :: func where "staticAfter = plain_function 11 1"
definition instanceBefore :: func where "instanceBefore = plain_function 12 0"
definition instanceAfter :: func where "instanceAfter = plain_function 13 1"

definition skippedOnly :: func where
  "skippedOnly =
     \<lparr>fn_id = 14, fn_length = 0,
      fn_props = [''__mts_test'' \<mapsto> Str ''skipped'', ''__mts_skip'' \<mapsto> Bool True,
                  ''__mts_only'' \<mapsto> Bool True]\<rparr>"

definition timed :: func where
  "timed =
     \<lparr>fn_id = 15, fn_length = 1,
      fn_props = [''__mts_test'' \<mapsto> Str ''timed'', ''__mts_timout'' \<mapsto> Num (Finite 500),
                  ''__mts_slow'' \<mapsto> Num (Finite 100)]\<rparr>"

definition helper :: func where
  "helper =
     \<lparr>fn_id = 16, fn_length = 0,
      fn_props = [''__mts_skip'' \<mapsto> Bool True, ''__mts_only'' \<mapsto> Bool True,
                  ''__mts_timout'' \<mapsto> Num (Finite 500), ''__mts_slow'' \<mapsto> Num (Finite 100)]\<rparr>"

definition twoArgs :: func where
  "twoArgs =
     \<lparr>fn_id = 17, fn_length = 2,
      fn_props = [''__mts_test'' \<mapsto> Str ''two arguments'', ''__mts_skip'' \<mapsto> Bool True]\<rparr>"

definition fn_suite_prototype :: proto where
  "fn_suite_prototype =
     \<lparr>p_own = [(KStr ''constructor'', \<lparr>enumerable = False, p_value = Fn (plain_function 9 0)\<rparr>),
               (KStr ''before'', \<lparr>enumerable = True, p_value = Fn instanceBefore\<rparr>),
               (KStr ''after'', \<lparr>enumerable = True, p_value = Fn instanceAfter\<rparr>),
               (KStr ''skippedOnly'', \<lparr>enumerable = True, p_value = Fn skippedOnly\<rparr>),
               (KStr ''timed'', \<lparr>enumerable = True, p_value = Fn timed\<rparr>),
               (KStr ''helper'', \<lparr>enumerable = True, p_value = Fn helper\<rparr>),
               (KStr ''twoArgs'', \<lparr>enumerable = True, p_value = Fn twoArgs\<rparr>)],
      p_inherited = [],
      p_instance_of_function = True\<rparr>"

definition FnSuite :: suite_ctor where
  "FnSuite =
     \<lparr>c_name = Str ''FnSuite'', c_before = Fn staticBefore, c_after = Fn staticAfter,
      c_prototype = fn_suite_prototype\<rparr>"

text \<open>
  An ordinary class whose one method \<^verbatim>\<open>skippedOnly\<close> has no parameters and is marked
  test, skip and only.
\<close>

definition skipped_prototype :: proto where
  "skipped_prototype =
     \<lparr>p_own = [(KStr ''constructor'', \<lparr>enumerable = False, p_value = Fn (plain_function 8 0)\<rparr>),
               (KStr ''skippedOnly'', \<lparr>enumerable = True, p_value = Fn skippedOnly\<rparr>)],
      p_inherited = [],
      p_instance_of_function = False\<rparr>"

definition SkippedSuite :: suite_ctor where
  "SkippedSuite =
     \<lparr>c_name = Str ''SkippedSuite'', c_before = NonFn Undefined, c_after = NonFn Undefined,
      c_prototype = skipped_prototype\<rparr>"

text \<open>
  A table whose method \<^verbatim>\<open>run\<close> has two properties of the author's own, one of them under
  the name \<^verbatim>\<open>__mts_test\<close>. The key \<^verbatim>\<open>alias\<close> holds the same function object as \<^verbatim>\<open>run\<close>,
  the key \<^verbatim>\<open>other\<close> another function.
\<close>

definition authored :: func where
  "authored =
     \<lparr>fn_id = 20, fn_length = 0,
      fn_props = [''__mts_test'' \<mapsto> Str ''mine'', ''label'' \<mapsto> Str ''run me'']\<rparr>"

definition authored_prototype :: proto where
  "authored_prototype =
     \<lparr>p_own = [(KStr ''run'', \<lparr>enumerable = True, p_value = Fn authored\<rparr>),
               (KStr ''alias'', \<lparr>enumerable = True, p_value = Fn authored\<rparr>),
               (KStr ''other'', \<lparr>enumerable = True, p_value = Fn (plain_function 21 0)\<rparr>)],
      p_inherited = [],
      p_instance_of_function = False\<rparr>"

text \<open>Reading a property of the member under a key once a marking operation has run.\<close>

definition tag_after :: "exn + proto \<Rightarrow> pkey \<Rightarrow> string \<Rightarrow> exn + jsval" where
  "tag_after r k tagKey =
     (case r of Inl x \<Rightarrow> Inl x | Inr t \<Rightarrow> member_tag (proto_get t k) tagKey)"

text \<open>User code in which no constructor throws and every call returns undefined.\<close>

definition quiet_env :: env where
  "quiet_env = \<lparr>construct = (\<lambda>n. None), invoke = (\<lambda>f r args. Returned None)\<rparr>"

section \<open>The shape of what is registered\<close>

lemmas tag_keys = testNameSymbol_def slowSymbol_def timeoutSymbol_def onlySymbol_def
  skipSymbol_def nodeSymbol_def

text \<open>
  The guard of the loop tests the prototype, not the member: on a prototype that is not
  an instance of \<^verbatim>\<open>Function\<close> every round ends at \<^verbatim>\<open>continue\<close>.
\<close>

lemma loop_not_function:
  "\<not> p_instance_of_function p \<Longrightarrow> loop h p ks = ([], None)"
  by (induction ks) (simp_all add: loop_body_def)

text \<open>
  Whatever a round of the loop registers is a case for the function object under the key,
  named by its display-name tag, through the entry point its flags select.
\<close>

lemma loop_body_shape:
  assumes "loop_body h p key = Inr regs" and "r \<in> set regs"
  shows "\<exists>f. proto_get p (KStr key) = Fn f \<and> hasOwnProperty p (KStr key) \<and>
             p_instance_of_function p \<and> truthy (read_tag f testNameSymbol) \<and>
             fn_length f \<le> 1 \<and>
             r = RegCase (testFunc (read_tag f skipSymbol) (read_tag f onlySymbol))
                   (read_tag f testNameSymbol) (CaseBody h (Fn f) (fn_length f = 1))"
proof (cases "proto_get p (KStr key)")
  case (Fn f)
  with assms show ?thesis
    by (auto simp add: loop_body_def Let_def split: if_splits)
next
  case (NonFn v)
  with assms show ?thesis
    by (cases v) (auto simp add: loop_body_def Let_def split: if_splits)
qed

lemma loop_shape:
  "r \<in> set (fst (loop h p keys)) \<Longrightarrow>
     \<exists>key \<in> set keys. \<exists>regs. loop_body h p key = Inr regs \<and> r \<in> set regs"
proof (induction keys)
  case Nil
  then show ?case by simp
next
  case (Cons key keys)
  then show ?case
    by (auto split: sum.splits prod.splits)
qed

lemma static_hook_no_case: "RegCase en n c \<notin> set (static_hook slot m)"
  by (simp add: static_hook_def)

lemma describe_callback_regs:
  "fst (describe_callback h (TgtCtor target)) =
     static_hook BeforeAll (c_before target) @ static_hook AfterAll (c_after target) @
     [RegHook BeforeEach (beforeEachFunction (c_prototype target)),
      RegHook AfterEach (afterEachFunction (c_prototype target))] @
     fst (loop h (c_prototype target) (for_in_keys (c_prototype target)))"
  by (simp add: Let_def split: prod.splits)

lemma registered_case_shape:
  assumes "RegCase en n c \<in> set (fst (describe_callback h tgt))"
  shows "\<exists>target key f. tgt = TgtCtor target \<and>
           proto_get (c_prototype target) (KStr key) = Fn f \<and>
           hasOwnProperty (c_prototype target) (KStr key) \<and>
           p_instance_of_function (c_prototype target) \<and>
           truthy (read_tag f testNameSymbol) \<and> fn_length f \<le> 1 \<and>
           en = testFunc (read_tag f skipSymbol) (read_tag f onlySymbol) \<and>
           n = read_tag f testNameSymbol \<and> c = CaseBody h (Fn f) (fn_length f = 1)"
proof (cases tgt)
  case (TgtStr s)
  with assms show ?thesis by simp
next
  case (TgtCtor target)
  with assms have "RegCase en n c \<in> set (fst (loop h (c_prototype target) (for_in_keys (c_prototype target))))"
    by (simp add: describe_callback_regs static_hook_no_case del: describe_callback.simps)
  then obtain key regs where "loop_body h (c_prototype target) key = Inr regs"
      and "RegCase en n c \<in> set regs"
    using loop_shape by blast
  from loop_body_shape [OF this] TgtCtor show ?thesis by auto
qed

lemma run_case_body:
  "run_closure e (CaseBody h (Fn f) d) args s =
     ((if is_number (read_tag f timeoutSymbol) then [EvTimeout h (read_tag f timeoutSymbol)] else []) @
      (if is_number (read_tag f slowSymbol) then [EvSlow h (read_tag f slowSymbol)] else []) @
      [EvCall f (recv_of (st_instance s)) (done_args d args)],
      invoke e f (recv_of (st_instance s)) (done_args d args), s)"
  by (simp add: applyTimes_def)


lemma loop_no_error:
  "(\<forall>key \<in> set keys. \<exists>g. proto_get p (KStr key) = Fn g) \<Longrightarrow> snd (loop h p keys) = None"
proof (induction keys)
  case Nil
  then show ?case by simp
next
  case (Cons key keys)
  then obtain g where "proto_get p (KStr key) = Fn g" by auto
  then have "\<exists>regs. loop_body h p key = Inr regs"
    by (simp add: loop_body_def Let_def)
  then obtain regs where "loop_body h p key = Inr regs" ..
  with Cons show ?case by (auto split: prod.splits)
qed

lemma describe_callback_err:
  "snd (describe_callback h (TgtCtor target)) =
     snd (loop h (c_prototype target) (for_in_keys (c_prototype target)))"
  by (simp add: Let_def split: prod.splits)

text \<open>
  Which cases are registered: none for a class whose prototype is not an instance of
  \<^verbatim>\<open>Function\<close>; for one whose prototype is, and whose translation does not throw, every
  own enumerable function with a truthy display-name tag and at most one parameter.
\<close>

lemma ordinary_class_registers_no_case:
  assumes "\<not> p_instance_of_function (c_prototype target)"
  shows "RegCase en n c \<notin> set (fst (describe_callback h (TgtCtor target)))"
proof
  assume "RegCase en n c \<in> set (fst (describe_callback h (TgtCtor target)))"
  from registered_case_shape [OF this] assms show False by auto
qed

lemma loop_complete:
  "snd (loop h p keys) = None \<Longrightarrow> key \<in> set keys \<Longrightarrow> loop_body h p key = Inr regs \<Longrightarrow>
     set regs \<subseteq> set (fst (loop h p keys))"
proof (induction keys)
  case Nil
  then show ?case by simp
next
  case (Cons k keys)
  then show ?case
    by (auto split: sum.splits prod.splits)
qed

lemma function_class_registers_case:
  assumes "p_instance_of_function (c_prototype target)"
    and "key \<in> set (for_in_keys (c_prototype target))"
    and "hasOwnProperty (c_prototype target) (KStr key)"
    and "proto_get (c_prototype target) (KStr key) = Fn f"
    and "truthy (read_tag f testNameSymbol)"
    and "fn_length f \<le> 1"
    and "snd (describe_callback h (TgtCtor target)) = None"
  shows "RegCase (testFunc (read_tag f skipSymbol) (read_tag f onlySymbol))
           (read_tag f testNameSymbol) (CaseBody h (Fn f) (fn_length f = 1))
         \<in> set (fst (describe_callback h (TgtCtor target)))"
proof -
  have body: "loop_body h (c_prototype target) key =
      Inr [RegCase (testFunc (read_tag f skipSymbol) (read_tag f onlySymbol))
           (read_tag f testNameSymbol) (CaseBody h (Fn f) (fn_length f = 1))]"
    using assms(1,3,4,5,6) by (auto simp add: loop_body_def Let_def)
  from assms(7) have "snd (loop h (c_prototype target) (for_in_keys (c_prototype target))) = None"
    by (simp only: describe_callback_err)
  from loop_complete [OF this assms(2) body] show ?thesis
    by (simp add: describe_callback_regs del: describe_callback.simps)
qed

section \<open>The claims\<close>

text \<open>
  Claim C1: every own enumerable member with a display-name tag and zero or one declared
  parameters is registered as a case; the suite class \<^verbatim>\<open>Calculator\<close> with the method
  \<^verbatim>\<open>addsNumbers\<close> tagged "adds numbers" yields the suite "Calculator" with the one case
  "adds numbers".

  The code does not do this. The suite is registered under the name "Calculator", but
  its callback registers the per-case setup and teardown and no case at all: the loop
  guard \<^verbatim>\<open>!(prototype instanceof Function)\<close> holds for the prototype of an ordinary class.
\<close>

theorem calculator_registers_no_case:
  "suite (SuiteDirect Calculator) =
     SuiteApplied (Describe (Str ''Calculator'') (TgtCtor Calculator)) \<and>
   describe_callback h (TgtCtor Calculator) =
     ([RegHook BeforeEach SetupDefault, RegHook AfterEach TeardownDefault], None)"
  by (simp add: suite_def suite_result_def js_or_def Calculator_def calculator_prototype_def
      static_hook_def beforeEachFunction_def afterEachFunction_def proto_get_def
      loop_not_function)

text \<open>
  Claim C3: a first argument of string type selects the configure-then-apply form, and
  only such an argument.

  The code decides by the truthiness of the string. With the empty string, \<^verbatim>\<open>suite\<close>
  calls the runner at once, with an undefined name and the string as target, and the
  callback it registers throws; \<^verbatim>\<open>test\<close> throws at once. No marker is returned.
\<close>

theorem empty_name_applies_immediately:
  "suite (SuiteByName '''') = SuiteApplied (Describe Undefined (TgtStr '''')) \<and>
   describe_callback h (TgtStr '''') = ([], Some TypeError) \<and>
   test (TestByName '''') = Inl TypeError"
  by (simp add: suite_def suite_result_def js_or_def test_def)




text \<open>
  Claim C7: a member without a display-name tag is never registered as a case, whatever
  other tags it carries. No assumption is made on the other properties of \<open>f\<close>; a
  member that is not a function has no tags and is not registered either.
\<close>

theorem untagged_member_never_registered:
  assumes "fn_props f testNameSymbol = None"
  shows "RegCase en n (CaseBody h' (Fn f) d) \<notin> set (fst (describe_callback h tgt)) \<and>
         RegCase en n (CaseBody h' (NonFn v) d) \<notin> set (fst (describe_callback h tgt))"
proof -
  have "truthy (read_tag g testNameSymbol)"
    if "RegCase en n (CaseBody h' (Fn g) d) \<in> set (fst (describe_callback h tgt))" for g
    using registered_case_shape [OF that] by auto
  moreover have "\<not> truthy (read_tag f testNameSymbol)"
    using assms by (simp add: read_tag_def)
  moreover have "RegCase en n (CaseBody h' (NonFn v) d) \<notin> set (fst (describe_callback h tgt))"
    using registered_case_shape [of en n "CaseBody h' (NonFn v) d" h tgt] by auto
  ultimately show ?thesis by blast
qed

text \<open>
  The method \<^verbatim>\<open>helper\<close> of \<open>FnSuite\<close> carries the skip, only, timeout and slow tags
  and is not registered.
\<close>

theorem untagged_member_never_registered_witness:
  "fn_props helper testNameSymbol = None \<and>
   read_tag helper skipSymbol = Bool True \<and> read_tag helper onlySymbol = Bool True \<and>
   read_tag helper timeoutSymbol = Num (Finite 500) \<and>
   read_tag helper slowSymbol = Num (Finite 100) \<and>
   proto_get (c_prototype FnSuite) (KStr ''helper'') = Fn helper \<and>
   RegCase ItSkip Undefined (CaseBody 0 (Fn helper) False)
     \<notin> set (fst (describe_callback 0 (TgtCtor FnSuite)))"
proof -
  have untagged: "fn_props helper testNameSymbol = None"
    by (simp add: helper_def tag_keys)
  have tags: "read_tag helper skipSymbol = Bool True \<and> read_tag helper onlySymbol = Bool True \<and>
   read_tag helper timeoutSymbol = Num (Finite 500) \<and>
   read_tag helper slowSymbol = Num (Finite 100)"
    by (simp add: helper_def tag_keys read_tag_def)
  have own: "proto_get (c_prototype FnSuite) (KStr ''helper'') = Fn helper"
    by (simp add: FnSuite_def fn_suite_prototype_def proto_get_def)
  from untagged_member_never_registered [OF untagged]
  have "RegCase ItSkip Undefined (CaseBody 0 (Fn helper) False)
     \<notin> set (fst (describe_callback 0 (TgtCtor FnSuite)))"
    by blast
  with untagged tags own show ?thesis by blast
qed

text \<open>
  Claim C6: a behaviour with two or more declared parameters is not registered as a case,
  and nothing is raised for it. This holds whether or not it carries a display-name
  tag: no registration closes over such a function, the round of the loop that visits it
  ends normally with no registration, and a suite whose enumerated members are all
  functions is translated without an exception. The code has no warning channel.
\<close>

theorem arity_two_or_more_not_registered:
  assumes "2 \<le> fn_length f"
  shows "RegCase en n (CaseBody h' (Fn f) d) \<notin> set (fst (describe_callback h tgt)) \<and>
         (proto_get p (KStr key) = Fn f \<longrightarrow> loop_body h p key = Inr []) \<and>
         ((\<forall>k \<in> set (for_in_keys (c_prototype target)).
              \<exists>g. proto_get (c_prototype target) (KStr k) = Fn g) \<longrightarrow>
          snd (describe_callback h (TgtCtor target)) = None)"
proof (intro conjI impI)
  show "RegCase en n (CaseBody h' (Fn f) d) \<notin> set (fst (describe_callback h tgt))"
  proof
    assume "RegCase en n (CaseBody h' (Fn f) d) \<in> set (fst (describe_callback h tgt))"
    from registered_case_shape [OF this] have "fn_length f \<le> 1" by auto
    with assms show False by simp
  qed
next
  assume "proto_get p (KStr key) = Fn f"
  with assms show "loop_body h p key = Inr []"
    by (simp add: loop_body_def Let_def)
next
  assume "\<forall>k \<in> set (for_in_keys (c_prototype target)).
              \<exists>g. proto_get (c_prototype target) (KStr k) = Fn g"
  then show "snd (describe_callback h (TgtCtor target)) = None"
    by (simp only: describe_callback_err loop_no_error)
qed

text \<open>The method \<^verbatim>\<open>twoArgs\<close> of \<open>FnSuite\<close> is tagged "two arguments" and not registered.\<close>

theorem arity_two_or_more_not_registered_witness:
  "2 \<le> fn_length twoArgs \<and> read_tag twoArgs testNameSymbol = Str ''two arguments'' \<and>
   RegCase ItSkip (Str ''two arguments'') (CaseBody 0 (Fn twoArgs) False)
     \<notin> set (fst (describe_callback 0 (TgtCtor FnSuite))) \<and>
   loop_body 0 fn_suite_prototype ''twoArgs'' = Inr [] \<and>
   snd (describe_callback 0 (TgtCtor FnSuite)) = None"
proof -
  have len: "2 \<le> fn_length twoArgs" by (simp add: twoArgs_def)
  have tag: "read_tag twoArgs testNameSymbol = Str ''two arguments''"
    by (simp add: twoArgs_def read_tag_def tag_keys)
  have own: "proto_get fn_suite_prototype (KStr ''twoArgs'') = Fn twoArgs"
    by (simp add: fn_suite_prototype_def proto_get_def)
  have fns: "\<forall>k \<in> set (for_in_keys (c_prototype FnSuite)).
              \<exists>g. proto_get (c_prototype FnSuite) (KStr k) = Fn g"
    by (simp add: FnSuite_def fn_suite_prototype_def for_in_keys_def proto_get_def)
  from arity_two_or_more_not_registered [OF len, of ItSkip "Str ''two arguments''" 0 False 0
      "TgtCtor FnSuite" fn_suite_prototype "''twoArgs''" FnSuite] own fns
  have "RegCase ItSkip (Str ''two arguments'') (CaseBody 0 (Fn twoArgs) False)
     \<notin> set (fst (describe_callback 0 (TgtCtor FnSuite))) \<and>
   loop_body 0 fn_suite_prototype ''twoArgs'' = Inr [] \<and>
   snd (describe_callback 0 (TgtCtor FnSuite)) = None"
    by blast
  with len tag show ?thesis by blast
qed

text \<open>
  Claim C5: a behaviour with a display-name tag and a skip-flag tag is registered through
  the skip entry point, also when it carries an only-flag tag; an only-flag tag alone
  selects the exclusive-run entry point; with neither flag the normal one is used.

  The code does not do this for an ordinary class. The method \<^verbatim>\<open>skippedOnly\<close> of
  \<open>SkippedSuite\<close> is an own enumerable function of no parameters with the display-name
  tag "skipped" and both flags; the suite callback registers the per-case setup and
  teardown and no case, through no entry point, because the loop guard
  \<^verbatim>\<open>!(prototype instanceof Function)\<close> holds for the prototype of an ordinary class.
\<close>

theorem skip_tagged_method_not_registered:
  "proto_get (c_prototype SkippedSuite) (KStr ''skippedOnly'') = Fn skippedOnly \<and>
   ''skippedOnly'' \<in> set (for_in_keys (c_prototype SkippedSuite)) \<and>
   hasOwnProperty (c_prototype SkippedSuite) (KStr ''skippedOnly'') \<and>
   fn_length skippedOnly = 0 \<and>
   read_tag skippedOnly testNameSymbol = Str ''skipped'' \<and>
   read_tag skippedOnly skipSymbol = Bool True \<and>
   read_tag skippedOnly onlySymbol = Bool True \<and>
   describe_callback h (TgtCtor SkippedSuite) =
     ([RegHook BeforeEach SetupDefault, RegHook AfterEach TeardownDefault], None)"
proof -
  have member: "proto_get (c_prototype SkippedSuite) (KStr ''skippedOnly'') = Fn skippedOnly \<and>
      ''skippedOnly'' \<in> set (for_in_keys (c_prototype SkippedSuite)) \<and>
      hasOwnProperty (c_prototype SkippedSuite) (KStr ''skippedOnly'')"
    by (simp add: SkippedSuite_def skipped_prototype_def proto_get_def for_in_keys_def
        hasOwnProperty_def)
  have tags: "fn_length skippedOnly = 0 \<and>
      read_tag skippedOnly testNameSymbol = Str ''skipped'' \<and>
      read_tag skippedOnly skipSymbol = Bool True \<and>
      read_tag skippedOnly onlySymbol = Bool True"
    by (simp add: read_tag_def tag_keys skippedOnly_def)
  have "describe_callback h (TgtCtor SkippedSuite) =
     ([RegHook BeforeEach SetupDefault, RegHook AfterEach TeardownDefault], None)"
    by (simp add: SkippedSuite_def skipped_prototype_def static_hook_def beforeEachFunction_def
        afterEachFunction_def proto_get_def loop_not_function)
  with member tags show ?thesis by blast
qed

text \<open>
  Where a case is registered, its entry point is the one the claim names: skip if the
  skip-flag tag is truthy, else exclusive-run if the only-flag tag is truthy, else the
  normal one.
\<close>

lemma registered_case_entry_point:
  assumes "RegCase en n (CaseBody h' (Fn f) d) \<in> set (fst (describe_callback h tgt))"
  shows "truthy (read_tag f testNameSymbol) \<and> n = read_tag f testNameSymbol \<and>
         en = (if truthy (read_tag f skipSymbol) then ItSkip
               else if truthy (read_tag f onlySymbol) then ItOnly else It)"
  using registered_case_shape [OF assms] by (auto simp add: testFunc_def)

text \<open>The closures registered for hooks that are functions, and what running them does.\<close>

lemma static_hook_fn:
  "static_hook slot (Fn b) = [RegHook slot (StaticHook (Fn b) (0 < fn_length b))]"
  by (simp add: static_hook_def length_gt0_def)

lemma beforeEachFunction_fn:
  "proto_get p (KStr ''before'') = Fn b \<Longrightarrow>
     beforeEachFunction p = SetupHook (Fn b) (0 < fn_length b)"
  by (simp add: beforeEachFunction_def length_gt0_def Let_def)

lemma afterEachFunction_fn:
  "proto_get p (KStr ''after'') = Fn a \<Longrightarrow>
     afterEachFunction p = TeardownHook (Fn a) (0 < fn_length a)"
  by (simp add: afterEachFunction_def length_gt0_def Let_def)

lemma hooks_registered:
  "RegHook BeforeEach (beforeEachFunction (c_prototype target))
     \<in> set (fst (describe_callback h (TgtCtor target))) \<and>
   RegHook AfterEach (afterEachFunction (c_prototype target))
     \<in> set (fst (describe_callback h (TgtCtor target)))"
  by (simp add: describe_callback_regs del: describe_callback.simps)

lemma static_before_convention:
  assumes "c_before target = Fn b"
  shows "RegHook BeforeAll (StaticHook (Fn b) (0 < fn_length b))
           \<in> set (fst (describe_callback h (TgtCtor target))) \<and>
         closure_arity (StaticHook (Fn b) (0 < fn_length b)) = (if 0 < fn_length b then 1 else 0) \<and>
         run_closure e (StaticHook (Fn b) (0 < fn_length b)) args s =
           ([EvCall b RecvCtor (if 0 < fn_length b then [first_arg args] else [])],
            invoke e b RecvCtor (if 0 < fn_length b then [first_arg args] else []), s)"
  using assms
  by (simp add: describe_callback_regs static_hook_fn done_args_def del: describe_callback.simps)

lemma static_after_convention:
  assumes "c_after target = Fn a"
  shows "RegHook AfterAll (StaticHook (Fn a) (0 < fn_length a))
           \<in> set (fst (describe_callback h (TgtCtor target))) \<and>
         closure_arity (StaticHook (Fn a) (0 < fn_length a)) = (if 0 < fn_length a then 1 else 0) \<and>
         run_closure e (StaticHook (Fn a) (0 < fn_length a)) args s =
           ([EvCall a RecvCtor (if 0 < fn_length a then [first_arg args] else [])],
            invoke e a RecvCtor (if 0 < fn_length a then [first_arg args] else []), s)"
  using assms
  by (simp add: describe_callback_regs static_hook_fn done_args_def del: describe_callback.simps)

lemma instance_before_convention:
  assumes "proto_get (c_prototype target) (KStr ''before'') = Fn b"
  shows "RegHook BeforeEach (SetupHook (Fn b) (0 < fn_length b))
           \<in> set (fst (describe_callback h (TgtCtor target))) \<and>
         closure_arity (SetupHook (Fn b) (0 < fn_length b)) = (if 0 < fn_length b then 1 else 0) \<and>
         (construct e (allocated s) = None \<longrightarrow>
            run_closure e (SetupHook (Fn b) (0 < fn_length b)) args s =
              ([EvNew, EvSetInstance (Some (allocated s)),
                EvCall b (RecvInstance (allocated s))
                  (if 0 < fn_length b then [first_arg args] else [])],
               invoke e b (RecvInstance (allocated s))
                  (if 0 < fn_length b then [first_arg args] else []),
               s\<lparr>st_instance := Some (allocated s), allocated := Suc (allocated s)\<rparr>))"
  using hooks_registered [of target h] beforeEachFunction_fn [OF assms]
  by (simp add: new_target_def done_args_def Let_def del: describe_callback.simps)

lemma instance_after_convention:
  assumes "proto_get (c_prototype target) (KStr ''after'') = Fn a"
  shows "RegHook AfterEach (TeardownHook (Fn a) (0 < fn_length a))
           \<in> set (fst (describe_callback h (TgtCtor target))) \<and>
         closure_arity (TeardownHook (Fn a) (0 < fn_length a)) = (if 0 < fn_length a then 1 else 0) \<and>
         run_closure e (TeardownHook (Fn a) (0 < fn_length a)) args s =
           ([EvSetInstance None,
             EvCall a (recv_of (st_instance s)) (if 0 < fn_length a then [first_arg args] else [])],
            invoke e a (recv_of (st_instance s)) (if 0 < fn_length a then [first_arg args] else []),
            s\<lparr>st_instance := None\<rparr>)"
  using hooks_registered [of target h] afterEachFunction_fn [OF assms]
  by (simp add: done_args_def Let_def del: describe_callback.simps)

lemma run_setup_state:
  "construct e (allocated s) = None \<Longrightarrow>
     snd (snd (run_closure e (beforeEachFunction p) args s)) =
       s\<lparr>st_instance := Some (allocated s), allocated := Suc (allocated s)\<rparr>"
  by (simp add: beforeEachFunction_def Let_def new_target_def split: prod.splits)

lemma run_setup_throws:
  "construct e (allocated s) = Some x \<Longrightarrow>
     fst (snd (run_closure e (beforeEachFunction p) args s)) = Thrown x"
  by (simp add: beforeEachFunction_def Let_def new_target_def)

text \<open>
  Claim C4: for the static before-all and after-all hooks and the instance before-each
  and after-each hooks, a hook of no declared parameters is called with no arguments
  and its return value goes to the runner; a hook of one or more declared parameters
  is called with the single completion callback the runner supplies.

  For each hook that is a function, the closure registered in its slot declares
  \<^verbatim>\<open>done\<close> exactly when the hook has a parameter, and running it calls the hook once,
  with no arguments or with the first argument of the runner, and ends as that call
  ends. The static hooks are called on the class; the instance hooks on the instance
  (the before hook after a construction that succeeded).
\<close>

theorem hook_calling_convention:
  "(c_before target = Fn sb \<longrightarrow>
      RegHook BeforeAll (StaticHook (Fn sb) (0 < fn_length sb))
        \<in> set (fst (describe_callback h (TgtCtor target))) \<and>
      closure_arity (StaticHook (Fn sb) (0 < fn_length sb)) = (if 0 < fn_length sb then 1 else 0) \<and>
      run_closure e (StaticHook (Fn sb) (0 < fn_length sb)) args s =
        ([EvCall sb RecvCtor (if 0 < fn_length sb then [first_arg args] else [])],
         invoke e sb RecvCtor (if 0 < fn_length sb then [first_arg args] else []), s)) \<and>
   (c_after target = Fn sa \<longrightarrow>
      RegHook AfterAll (StaticHook (Fn sa) (0 < fn_length sa))
        \<in> set (fst (describe_callback h (TgtCtor target))) \<and>
      closure_arity (StaticHook (Fn sa) (0 < fn_length sa)) = (if 0 < fn_length sa then 1 else 0) \<and>
      run_closure e (StaticHook (Fn sa) (0 < fn_length sa)) args s =
        ([EvCall sa RecvCtor (if 0 < fn_length sa then [first_arg args] else [])],
         invoke e sa RecvCtor (if 0 < fn_length sa then [first_arg args] else []), s)) \<and>
   (proto_get (c_prototype target) (KStr ''before'') = Fn ib \<longrightarrow>
      RegHook BeforeEach (SetupHook (Fn ib) (0 < fn_length ib))
        \<in> set (fst (describe_callback h (TgtCtor target))) \<and>
      closure_arity (SetupHook (Fn ib) (0 < fn_length ib)) = (if 0 < fn_length ib then 1 else 0) \<and>
      (construct e (allocated s) = None \<longrightarrow>
         run_closure e (SetupHook (Fn ib) (0 < fn_length ib)) args s =
           ([EvNew, EvSetInstance (Some (allocated s)),
             EvCall ib (RecvInstance (allocated s))
               (if 0 < fn_length ib then [first_arg args] else [])],
            invoke e ib (RecvInstance (allocated s))
               (if 0 < fn_length ib then [first_arg args] else []),
            s\<lparr>st_instance := Some (allocated s), allocated := Suc (allocated s)\<rparr>))) \<and>
   (proto_get (c_prototype target) (KStr ''after'') = Fn ia \<longrightarrow>
      RegHook AfterEach (TeardownHook (Fn ia) (0 < fn_length ia))
        \<in> set (fst (describe_callback h (TgtCtor target))) \<and>
      closure_arity (TeardownHook (Fn ia) (0 < fn_length ia)) = (if 0 < fn_length ia then 1 else 0) \<and>
      run_closure e (TeardownHook (Fn ia) (0 < fn_length ia)) args s =
        ([EvSetInstance None,
          EvCall ia (recv_of (st_instance s)) (if 0 < fn_length ia then [first_arg args] else [])],
         invoke e ia (recv_of (st_instance s)) (if 0 < fn_length ia then [first_arg args] else []),
         s\<lparr>st_instance := None\<rparr>))"
proof (intro conjI)
  show "c_before target = Fn sb \<longrightarrow>
      RegHook BeforeAll (StaticHook (Fn sb) (0 < fn_length sb))
        \<in> set (fst (describe_callback h (TgtCtor target))) \<and>
      closure_arity (StaticHook (Fn sb) (0 < fn_length sb)) = (if 0 < fn_length sb then 1 else 0) \<and>
      run_closure e (StaticHook (Fn sb) (0 < fn_length sb)) args s =
        ([EvCall sb RecvCtor (if 0 < fn_length sb then [first_arg args] else [])],
         invoke e sb RecvCtor (if 0 < fn_length sb then [first_arg args] else []), s)"
    by (rule impI) (rule static_before_convention)
next
  show "c_after target = Fn sa \<longrightarrow>
      RegHook AfterAll (StaticHook (Fn sa) (0 < fn_length sa))
        \<in> set (fst (describe_callback h (TgtCtor target))) \<and>
      closure_arity (StaticHook (Fn sa) (0 < fn_length sa)) = (if 0 < fn_length sa then 1 else 0) \<and>
      run_closure e (StaticHook (Fn sa) (0 < fn_length sa)) args s =
        ([EvCall sa RecvCtor (if 0 < fn_length sa then [first_arg args] else [])],
         invoke e sa RecvCtor (if 0 < fn_length sa then [first_arg args] else []), s)"
    by (rule impI) (rule static_after_convention)
next
  show "proto_get (c_prototype target) (KStr ''before'') = Fn ib \<longrightarrow>
      RegHook BeforeEach (SetupHook (Fn ib) (0 < fn_length ib))
        \<in> set (fst (describe_callback h (TgtCtor target))) \<and>
      closure_arity (SetupHook (Fn ib) (0 < fn_length ib)) = (if 0 < fn_length ib then 1 else 0) \<and>
      (construct e (allocated s) = None \<longrightarrow>
         run_closure e (SetupHook (Fn ib) (0 < fn_length ib)) args s =
           ([EvNew, EvSetInstance (Some (allocated s)),
             EvCall ib (RecvInstance (allocated s))
               (if 0 < fn_length ib then [first_arg args] else [])],
            invoke e ib (RecvInstance (allocated s))
               (if 0 < fn_length ib then [first_arg args] else []),
            s\<lparr>st_instance := Some (allocated s), allocated := Suc (allocated s)\<rparr>))"
    by (rule impI) (rule instance_before_convention)
next
  show "proto_get (c_prototype target) (KStr ''after'') = Fn ia \<longrightarrow>
      RegHook AfterEach (TeardownHook (Fn ia) (0 < fn_length ia))
        \<in> set (fst (describe_callback h (TgtCtor target))) \<and>
      closure_arity (TeardownHook (Fn ia) (0 < fn_length ia)) = (if 0 < fn_length ia then 1 else 0) \<and>
      run_closure e (TeardownHook (Fn ia) (0 < fn_length ia)) args s =
        ([EvSetInstance None,
          EvCall ia (recv_of (st_instance s)) (if 0 < fn_length ia then [first_arg args] else [])],
         invoke e ia (recv_of (st_instance s)) (if 0 < fn_length ia then [first_arg args] else []),
         s\<lparr>st_instance := None\<rparr>)"
    by (rule impI) (rule instance_after_convention)
qed

text \<open>
  In \<open>FnSuite\<close> the static and instance before hooks have no parameters and the two
  after hooks have one; the runner passes the callback 1.
\<close>

theorem hook_calling_convention_witness:
  "c_before FnSuite = Fn staticBefore \<and> c_after FnSuite = Fn staticAfter \<and>
   proto_get (c_prototype FnSuite) (KStr ''before'') = Fn instanceBefore \<and>
   proto_get (c_prototype FnSuite) (KStr ''after'') = Fn instanceAfter \<and>
   fn_length staticBefore = 0 \<and> fn_length staticAfter = 1 \<and>
   fn_length instanceBefore = 0 \<and> fn_length instanceAfter = 1 \<and>
   construct quiet_env 5 = None \<and>
   RegHook BeforeAll (StaticHook (Fn staticBefore) False)
     \<in> set (fst (describe_callback 0 (TgtCtor FnSuite))) \<and>
   run_closure quiet_env (StaticHook (Fn staticBefore) False) [Callback 1]
       \<lparr>st_instance = Some 4, allocated = 5\<rparr> =
     ([EvCall staticBefore RecvCtor []], Returned None, \<lparr>st_instance = Some 4, allocated = 5\<rparr>) \<and>
   RegHook AfterAll (StaticHook (Fn staticAfter) True)
     \<in> set (fst (describe_callback 0 (TgtCtor FnSuite))) \<and>
   run_closure quiet_env (StaticHook (Fn staticAfter) True) [Callback 1]
       \<lparr>st_instance = Some 4, allocated = 5\<rparr> =
     ([EvCall staticAfter RecvCtor [Callback 1]], Returned None,
      \<lparr>st_instance = Some 4, allocated = 5\<rparr>) \<and>
   RegHook BeforeEach (SetupHook (Fn instanceBefore) False)
     \<in> set (fst (describe_callback 0 (TgtCtor FnSuite))) \<and>
   run_closure quiet_env (SetupHook (Fn instanceBefore) False) [Callback 1]
       \<lparr>st_instance = Some 4, allocated = 5\<rparr> =
     ([EvNew, EvSetInstance (Some 5), EvCall instanceBefore (RecvInstance 5) []], Returned None,
      \<lparr>st_instance = Some 5, allocated = 6\<rparr>) \<and>
   RegHook AfterEach (TeardownHook (Fn instanceAfter) True)
     \<in> set (fst (describe_callback 0 (TgtCtor FnSuite))) \<and>
   run_closure quiet_env (TeardownHook (Fn instanceAfter) True) [Callback 1]
       \<lparr>st_instance = Some 4, allocated = 5\<rparr> =
     ([EvSetInstance None, EvCall instanceAfter (RecvInstance 4) [Callback 1]], Returned None,
      \<lparr>st_instance = None, allocated = 5\<rparr>)"
proof -
  have sb: "c_before FnSuite = Fn staticBefore" and sa: "c_after FnSuite = Fn staticAfter"
    by (simp_all add: FnSuite_def)
  have ib: "proto_get (c_prototype FnSuite) (KStr ''before'') = Fn instanceBefore"
    and ia: "proto_get (c_prototype FnSuite) (KStr ''after'') = Fn instanceAfter"
    by (simp_all add: FnSuite_def fn_suite_prototype_def proto_get_def)
  have len: "fn_length staticBefore = 0" "fn_length staticAfter = 1"
    "fn_length instanceBefore = 0" "fn_length instanceAfter = 1"
    by (simp_all add: staticBefore_def staticAfter_def instanceBefore_def instanceAfter_def
        plain_function_def)
  have ok: "construct quiet_env 5 = None"
    by (simp add: quiet_env_def)
  have quiet: "\<And>f r a. invoke quiet_env f r a = Returned None"
    by (simp add: quiet_env_def)
  note conv = hook_calling_convention [where target = FnSuite and sb = staticBefore
      and sa = staticAfter and ib = instanceBefore and ia = instanceAfter and h = 0
      and e = quiet_env and args = "[Callback 1]"
      and s = "\<lparr>st_instance = Some 4, allocated = 5\<rparr>"]
  from conv sb sa ib ia ok show ?thesis
    by (simp add: len quiet del: describe_callback.simps run_closure.simps)
qed

text \<open>
  Claim C2: with an instance-level before hook of no parameters, the instance is
  non-empty when each case body executes, and the stored instance reference is cleared
  only after the matching after hook has completed.

  The second half fails: the teardown closure saves the reference, clears the variable
  and only then calls the hook on the saved reference. In \<open>FnSuite\<close> the clearing is the
  first event of the teardown and the call of \<^verbatim>\<open>after\<close> the second.
\<close>

theorem instance_cleared_before_after_hook_counterexample:
  "run_closure quiet_env (afterEachFunction (c_prototype FnSuite)) [Callback 1]
       \<lparr>st_instance = Some 4, allocated = 5\<rparr> =
     ([EvSetInstance None, EvCall instanceAfter (RecvInstance 4) [Callback 1]], Returned None,
      \<lparr>st_instance = None, allocated = 5\<rparr>)"
  by (simp add: FnSuite_def fn_suite_prototype_def afterEachFunction_def proto_get_def
      length_gt0_def instanceAfter_def plain_function_def quiet_env_def done_args_def)

text \<open>
  Claim C2, amended: in every suite (in particular one with an instance-level before
  hook of no parameters), the per-case setup closure, when construction succeeds, leaves
  a fresh instance in the variable, and a case body run in that state calls its
  method on that instance; when construction throws, the setup closure throws. The
  teardown closure clears the variable first and then calls the after hook, if there is
  one, on the instance that was stored; without an after hook it only clears the
  variable. Both closures are registered with the runner, which runs the setup before
  and the teardown after each case body.
\<close>

theorem instance_lifecycle:
  "(construct e (allocated s) = None \<longrightarrow>
      st_instance (snd (snd (run_closure e (beforeEachFunction (c_prototype target)) args s)))
        = Some (allocated s) \<and>
      last (fst (run_closure e (CaseBody h (Fn f) d) args'
                  (snd (snd (run_closure e (beforeEachFunction (c_prototype target)) args s)))))
        = EvCall f (RecvInstance (allocated s)) (done_args d args')) \<and>
   (construct e (allocated s) = Some x \<longrightarrow>
      fst (snd (run_closure e (beforeEachFunction (c_prototype target)) args s)) = Thrown x) \<and>
   (proto_get (c_prototype target) (KStr ''after'') = Fn a \<longrightarrow>
      run_closure e (afterEachFunction (c_prototype target)) args s =
        ([EvSetInstance None,
          EvCall a (recv_of (st_instance s)) (done_args (0 < fn_length a) args)],
         invoke e a (recv_of (st_instance s)) (done_args (0 < fn_length a) args),
         s\<lparr>st_instance := None\<rparr>)) \<and>
   (\<not> member_truthy (proto_get (c_prototype target) (KStr ''after'')) \<longrightarrow>
      run_closure e (afterEachFunction (c_prototype target)) args s =
        ([EvSetInstance None], Returned None, s\<lparr>st_instance := None\<rparr>)) \<and>
   RegHook BeforeEach (beforeEachFunction (c_prototype target))
     \<in> set (fst (describe_callback h (TgtCtor target))) \<and>
   RegHook AfterEach (afterEachFunction (c_prototype target))
     \<in> set (fst (describe_callback h (TgtCtor target)))"
proof (intro conjI impI)
  assume ok: "construct e (allocated s) = None"
  from run_setup_state [OF ok]
  show inst: "st_instance (snd (snd (run_closure e (beforeEachFunction (c_prototype target)) args s)))
        = Some (allocated s)"
    by simp
  show "last (fst (run_closure e (CaseBody h (Fn f) d) args'
                  (snd (snd (run_closure e (beforeEachFunction (c_prototype target)) args s)))))
        = EvCall f (RecvInstance (allocated s)) (done_args d args')"
    by (simp add: run_case_body inst del: run_closure.simps)
next
  assume "construct e (allocated s) = Some x"
  then show "fst (snd (run_closure e (beforeEachFunction (c_prototype target)) args s)) = Thrown x"
    by (rule run_setup_throws)
next
  assume "proto_get (c_prototype target) (KStr ''after'') = Fn a"
  then show "run_closure e (afterEachFunction (c_prototype target)) args s =
        ([EvSetInstance None,
          EvCall a (recv_of (st_instance s)) (done_args (0 < fn_length a) args)],
         invoke e a (recv_of (st_instance s)) (done_args (0 < fn_length a) args),
         s\<lparr>st_instance := None\<rparr>)"
    by (simp add: afterEachFunction_fn Let_def)
next
  assume "\<not> member_truthy (proto_get (c_prototype target) (KStr ''after''))"
  then show "run_closure e (afterEachFunction (c_prototype target)) args s =
        ([EvSetInstance None], Returned None, s\<lparr>st_instance := None\<rparr>)"
    by (simp add: afterEachFunction_def Let_def)
next
  show "RegHook BeforeEach (beforeEachFunction (c_prototype target))
     \<in> set (fst (describe_callback h (TgtCtor target)))"
    using hooks_registered by blast
next
  show "RegHook AfterEach (afterEachFunction (c_prototype target))
     \<in> set (fst (describe_callback h (TgtCtor target)))"
    using hooks_registered by blast
qed

text \<open>
  In \<open>FnSuite\<close>, whose instance-level before hook has no parameters: setup stores the
  instance 5, the body of "timed" is called on it, and teardown clears the variable
  before it calls \<^verbatim>\<open>after\<close> on the instance that was stored.
\<close>

theorem instance_lifecycle_witness:
  "proto_get (c_prototype FnSuite) (KStr ''before'') = Fn instanceBefore \<and>
   fn_length instanceBefore = 0 \<and>
   proto_get (c_prototype FnSuite) (KStr ''after'') = Fn instanceAfter \<and>
   construct quiet_env 5 = None \<and>
   st_instance (snd (snd (run_closure quiet_env (beforeEachFunction (c_prototype FnSuite)) []
       \<lparr>st_instance = Some 4, allocated = 5\<rparr>))) = Some 5 \<and>
   last (fst (run_closure quiet_env (CaseBody 0 (Fn timed) True) [Callback 2]
       (snd (snd (run_closure quiet_env (beforeEachFunction (c_prototype FnSuite)) []
          \<lparr>st_instance = Some 4, allocated = 5\<rparr>))))) =
     EvCall timed (RecvInstance 5) [Callback 2] \<and>
   run_closure quiet_env (afterEachFunction (c_prototype FnSuite)) []
       \<lparr>st_instance = Some 4, allocated = 5\<rparr> =
     ([EvSetInstance None, EvCall instanceAfter (RecvInstance 4) [ArgUndefined]], Returned None,
      \<lparr>st_instance = None, allocated = 5\<rparr>)"
proof -
  have ib: "proto_get (c_prototype FnSuite) (KStr ''before'') = Fn instanceBefore"
    and ia: "proto_get (c_prototype FnSuite) (KStr ''after'') = Fn instanceAfter"
    by (simp_all add: FnSuite_def fn_suite_prototype_def proto_get_def)
  have len: "fn_length instanceBefore = 0" "fn_length instanceAfter = 1"
    by (simp_all add: instanceBefore_def instanceAfter_def plain_function_def)
  have ok: "construct quiet_env 5 = None"
    by (simp add: quiet_env_def)
  have quiet: "\<And>f r a. invoke quiet_env f r a = Returned None"
    by (simp add: quiet_env_def)
  note life = instance_lifecycle [where target = FnSuite and e = quiet_env and h = 0
      and f = timed and d = True and args = "[]" and args' = "[Callback 2]"
      and a = instanceAfter and s = "\<lparr>st_instance = Some 4, allocated = 5\<rparr>"]
  from life ib ia ok show ?thesis
    by (simp add: len quiet done_args_def del: describe_callback.simps run_closure.simps)
qed

text \<open>Reading the table after a store.\<close>

lemma map_of_store_on_slots:
  "map_of (store_on_slots i tagKey v xs) k =
     map_option (\<lambda>pr. pr\<lparr>p_value := store_on_member i tagKey v (p_value pr)\<rparr>) (map_of xs k)"
  by (induction xs) auto

lemma proto_get_store_on_function:
  "proto_get (store_on_function i tagKey v p) k = store_on_member i tagKey v (proto_get p k)"
  by (simp add: proto_get_def store_on_function_def map_of_store_on_slots store_on_member_def
      split: option.splits)

lemma store_tag_fn:
  "proto_get t k = Fn f \<Longrightarrow>
     store_tag tagKey v t k = Inr (store_on_function (fn_id f) tagKey v t)"
  by (simp add: store_tag_def)





text \<open>
  Claim C9: applying the test-marking operation with a name \<open>n1\<close> and then with a name
  \<open>n2\<close> to a behaviour leaves its display-name tag equal to \<open>n2\<close>.

  The code does not do this when \<open>n2\<close> is the empty string. After \<^verbatim>\<open>test("first")\<close> has
  marked \<^verbatim>\<open>run\<close>, its display-name tag is "first"; \<^verbatim>\<open>test("")\<close> then returns no marker and
  throws before it touches any table, so the tag stays "first".
\<close>

theorem empty_second_name_keeps_first_tag:
  "test (TestByName ''first'') = Inr (TestReturnsMarker (TestMarker (Str ''first''))) \<and>
   tag_after (apply_marker (TestMarker (Str ''first'')) authored_prototype (KStr ''run''))
     (KStr ''run'') testNameSymbol = Inr (Str ''first'') \<and>
   test (TestByName '''') = Inl TypeError"
proof -
  have own: "proto_get authored_prototype (KStr ''run'') = Fn authored"
    by (simp add: authored_prototype_def proto_get_def)
  have "tag_after (apply_marker (TestMarker (Str ''first'')) authored_prototype (KStr ''run''))
     (KStr ''run'') testNameSymbol = Inr (Str ''first'')"
    by (simp add: test_result_def js_or_def store_tag_fn [OF own] tag_after_def
        proto_get_store_on_function own store_on_member_def read_tag_def)
  then show ?thesis by (simp add: test_def del: apply_marker.simps)
qed

text \<open>
  For names that are not empty the last write wins: the markers of \<^verbatim>\<open>test(n1)\<close> and
  \<^verbatim>\<open>test(n2)\<close>, applied in turn to a function, both succeed and leave the one property
  \<^verbatim>\<open>__mts_test\<close> equal to \<open>n2\<close>.
\<close>

lemma nonempty_names_last_write_wins:
  assumes "proto_get t k = Fn f" and "n1 \<noteq> []" and "n2 \<noteq> []"
  shows "\<exists>t1 t2. test (TestByName n1) = Inr (TestReturnsMarker (TestMarker (Str n1))) \<and>
           test (TestByName n2) = Inr (TestReturnsMarker (TestMarker (Str n2))) \<and>
           apply_marker (TestMarker (Str n1)) t k = Inr t1 \<and>
           apply_marker (TestMarker (Str n2)) t1 k = Inr t2 \<and>
           member_tag (proto_get t1 k) testNameSymbol = Inr (Str n1) \<and>
           member_tag (proto_get t2 k) testNameSymbol = Inr (Str n2)"
proof -
  define f1 where "f1 = f\<lparr>fn_props := (fn_props f)(testNameSymbol \<mapsto> Str n1)\<rparr>"
  define t1 where "t1 = store_on_function (fn_id f) testNameSymbol (Str n1) t"
  define t2 where "t2 = store_on_function (fn_id f1) testNameSymbol (Str n2) t1"
  have a1: "apply_marker (TestMarker (Str n1)) t k = Inr t1"
    using assms(1,2) by (simp add: test_result_def js_or_def store_tag_fn t1_def)
  have g1: "proto_get t1 k = Fn f1"
    using assms(1) by (simp add: t1_def f1_def proto_get_store_on_function store_on_member_def)
  have a2: "apply_marker (TestMarker (Str n2)) t1 k = Inr t2"
    using g1 assms(3) by (simp add: test_result_def js_or_def store_tag_fn t2_def)
  have g2: "proto_get t2 k = Fn (f1\<lparr>fn_props := (fn_props f1)(testNameSymbol \<mapsto> Str n2)\<rparr>)"
    using g1 by (simp add: t2_def proto_get_store_on_function store_on_member_def)
  have "member_tag (proto_get t1 k) testNameSymbol = Inr (Str n1)"
    by (simp add: g1 f1_def read_tag_def)
  moreover have "member_tag (proto_get t2 k) testNameSymbol = Inr (Str n2)"
    by (simp add: g2 read_tag_def)
  moreover have "test (TestByName n1) = Inr (TestReturnsMarker (TestMarker (Str n1)))"
    "test (TestByName n2) = Inr (TestReturnsMarker (TestMarker (Str n2)))"
    using assms(2,3) by (simp_all add: test_def)
  ultimately show ?thesis using a1 a2 by blast
qed

text \<open>
  The dual form in general: a marker is returned exactly for a string that is not empty;
  a class given directly is applied at once under its own name.
\<close>

lemma suite_dual_form:
  "suite (SuiteByName s) =
     (if s \<noteq> [] then SuiteReturnsMarker (Str s)
      else SuiteApplied (Describe Undefined (TgtStr s)))"
  "suite (SuiteDirect c) = SuiteApplied (Describe (c_name c) (TgtCtor c))"
  by (simp_all add: suite_def suite_result_def js_or_def)

lemma test_dual_form:
  "test (TestByName s) =
     (if s \<noteq> [] then Inr (TestReturnsMarker (TestMarker (Str s))) else Inl TypeError)"
  "test (TestDirect t k) = map_sum id TestApplied (store_tag testNameSymbol (key_value k) t k)"
  by (simp_all add: test_def test_result_def js_or_def)

end
